theory Spec2Isabelle
  imports Main "HOL-Library.Char_ord" "HOL-Library.List_Lexorder" "HOL-Library.Multiset"
begin

section \<open>Python values\<close>

text \<open>
  The catalog is whatever \<^verbatim>\<open>json.loads\<close> returns: \<^verbatim>\<open>None\<close>, a bool, an int, a
  string, a list or a dict with string keys. A dict is an association list in insertion
  order (the order \<^verbatim>\<open>.items()\<close> and \<^verbatim>\<open>.keys()\<close> iterate in); a dict built by
  \<^verbatim>\<open>json.loads\<close> has pairwise distinct keys. JSON numbers with a fraction or an
  exponent (Python floats) are not part of the model.

  A Python \<^verbatim>\<open>str\<close> is modelled by a \<^typ>\<open>string\<close>, read as its UTF-8 encoding:
  concatenation, equality, substring search, replacement of ASCII patterns and the
  code-point order all agree with Python on that reading. Case mapping, digit tests,
  \<^verbatim>\<open>int()\<close> and \<^verbatim>\<open>repr()\<close> are modelled for ASCII characters; bytes above 127 are left
  unchanged by them and are never digits or spaces.
\<close>

datatype pyval =
    PNone
  | PBool bool
  | PInt int
  | PStr string
  | PList "pyval list"
  | PDict "(string \<times> pyval) list"

datatype exn =
    NameError
  | TypeError
  | AttributeError
  | ValueError
  | KeyError
  | OSError
  | RequestException
  | JSONDecodeError
  | UnicodeDecodeError
  | BadGzipFile
  | EOFError

type_synonym pydict = "(string \<times> pyval) list"

abbreviation DQ :: char where "DQ \<equiv> CHR 0x22"
abbreviation SQ :: char where "SQ \<equiv> CHR 0x27"
abbreviation NL :: char where "NL \<equiv> CHR 0x0A"
abbreviation BSL :: char where "BSL \<equiv> CHR 0x5C"

subsection \<open>Strings\<close>

definition is_digit :: "char \<Rightarrow> bool" where
  "is_digit c = (c \<in> set ''0123456789'')"

text \<open>\<^verbatim>\<open>s.isdigit()\<close>: non-empty and every character a digit.\<close>

definition str_isdigit :: "string \<Rightarrow> bool" where
  "str_isdigit s = (s \<noteq> [] \<and> list_all is_digit s)"

definition lower_char :: "char \<Rightarrow> char" where
  "lower_char c =
     (case map_of (zip ''ABCDEFGHIJKLMNOPQRSTUVWXYZ'' ''abcdefghijklmnopqrstuvwxyz'') c of
        None \<Rightarrow> c | Some d \<Rightarrow> d)"

definition upper_char :: "char \<Rightarrow> char" where
  "upper_char c =
     (case map_of (zip ''abcdefghijklmnopqrstuvwxyz'' ''ABCDEFGHIJKLMNOPQRSTUVWXYZ'') c of
        None \<Rightarrow> c | Some d \<Rightarrow> d)"

definition str_lower :: "string \<Rightarrow> string" where
  "str_lower s = map lower_char s"

definition str_upper :: "string \<Rightarrow> string" where
  "str_upper s = map upper_char s"

text \<open>
  \<^verbatim>\<open>s.replace(old, new)\<close>: every non-overlapping occurrence of \<^verbatim>\<open>old\<close>, found from
  the left, is replaced; the inserted text is not searched again. With an empty
  \<^verbatim>\<open>old\<close> Python inserts \<^verbatim>\<open>new\<close> before every character and at the end.
\<close>

function str_replace :: "string \<Rightarrow> string \<Rightarrow> string \<Rightarrow> string" where
  "str_replace old new [] = (if old = [] then new else [])"
| "str_replace old new (c # cs) =
     (if old = [] then new @ c # str_replace old new cs
      else if take (length old) (c # cs) = old
        then new @ str_replace old new (drop (length old) (c # cs))
      else c # str_replace old new cs)"
  by pat_completeness auto
termination
  by (relation "measure (\<lambda>(old, new, s). length s)") auto

text \<open>\<^verbatim>\<open>pat in s\<close> for two strings: \<^verbatim>\<open>pat\<close> occurs as a substring.\<close>

fun str_contains :: "string \<Rightarrow> string \<Rightarrow> bool" where
  "str_contains pat [] = (pat = [])"
| "str_contains pat (c # cs) = (take (length pat) (c # cs) = pat \<or> str_contains pat cs)"

subsection \<open>\<^verbatim>\<open>str()\<close> and \<^verbatim>\<open>repr()\<close>\<close>

definition digit_char :: "nat \<Rightarrow> char" where
  "digit_char n = ''0123456789abcdef'' ! n"

fun str_nat :: "nat \<Rightarrow> string" where
  "str_nat n =
     (if n < 10 then [digit_char n] else str_nat (n div 10) @ [digit_char (n mod 10)])"

declare str_nat.simps [simp del]

definition str_int :: "int \<Rightarrow> string" where
  "str_int i = (if i < 0 then CHR ''-'' # str_nat (nat (- i)) else str_nat (nat i))"

text \<open>
  \<^verbatim>\<open>repr\<close> of a string: single quotes, unless the string has a single quote and no
  double quote; the quote in use and the backslash are escaped, tab, newline and
  carriage return are written \<^verbatim>\<open>\t \n \r\<close>, other control characters \<^verbatim>\<open>\xhh\<close>.
\<close>

definition repr_char :: "char \<Rightarrow> char \<Rightarrow> string" where
  "repr_char q c =
     (let n = (of_char c :: nat) in
      if c = q \<or> c = BSL then [BSL, c]
      else if n = 9 then [BSL, CHR ''t'']
      else if n = 10 then [BSL, CHR ''n'']
      else if n = 13 then [BSL, CHR ''r'']
      else if n < 32 \<or> n = 127 then [BSL, CHR ''x'', digit_char (n div 16), digit_char (n mod 16)]
      else [c])"

definition repr_str :: "string \<Rightarrow> string" where
  "repr_str s =
     (let q = (if SQ \<in> set s \<and> DQ \<notin> set s then DQ else SQ)
      in q # concat (map (repr_char q) s) @ [q])"

fun join :: "string \<Rightarrow> string list \<Rightarrow> string" where
  "join sep [] = []"
| "join sep [x] = x"
| "join sep (x # y # ys) = x @ sep @ join sep (y # ys)"

fun py_repr :: "pyval \<Rightarrow> string" where
  "py_repr PNone = ''None''"
| "py_repr (PBool b) = (if b then ''True'' else ''False'')"
| "py_repr (PInt i) = str_int i"
| "py_repr (PStr s) = repr_str s"
| "py_repr (PList xs) = ''['' @ join '', '' (map py_repr xs) @ '']''"
| "py_repr (PDict d) =
     ''{'' @ join '', '' (map (\<lambda>(k, v). repr_str k @ '': '' @ py_repr v) d) @ ''}''"

text \<open>\<^verbatim>\<open>str(v)\<close>, which is also what an f-string field \<^verbatim>\<open>{v}\<close> inserts.\<close>

definition py_str :: "pyval \<Rightarrow> string" where
  "py_str v = (case v of PStr s \<Rightarrow> s | _ \<Rightarrow> py_repr v)"

subsection \<open>Truth value, membership, dict access\<close>

fun truthy :: "pyval \<Rightarrow> bool" where
  "truthy PNone = False"
| "truthy (PBool b) = b"
| "truthy (PInt i) = (i \<noteq> 0)"
| "truthy (PStr s) = (s \<noteq> [])"
| "truthy (PList xs) = (xs \<noteq> [])"
| "truthy (PDict d) = (d \<noteq> [])"

text \<open>
  \<^verbatim>\<open>k in v\<close> for a string \<^verbatim>\<open>k\<close>: a key test on a dict, a substring test on a string,
  an element test on a list, and a \<^verbatim>\<open>TypeError\<close> on \<^verbatim>\<open>None\<close>, a bool or an int.
\<close>

fun py_contains :: "string \<Rightarrow> pyval \<Rightarrow> exn + bool" where
  "py_contains k (PDict d) = Inr (map_of d k \<noteq> None)"
| "py_contains k (PStr s) = Inr (str_contains k s)"
| "py_contains k (PList xs) = Inr (PStr k \<in> set xs)"
| "py_contains k PNone = Inl TypeError"
| "py_contains k (PBool b) = Inl TypeError"
| "py_contains k (PInt i) = Inl TypeError"

text \<open>\<^verbatim>\<open>d.get(k, default)\<close> on a dict.\<close>

definition dict_get :: "pydict \<Rightarrow> string \<Rightarrow> pyval \<Rightarrow> pyval" where
  "dict_get d k dflt = (case map_of d k of None \<Rightarrow> dflt | Some v \<Rightarrow> v)"

text \<open>\<^verbatim>\<open>v.get(k, default)\<close> on any value: only a dict has the method.\<close>

fun py_get :: "pyval \<Rightarrow> string \<Rightarrow> pyval \<Rightarrow> exn + pyval" where
  "py_get (PDict d) k dflt = Inr (dict_get d k dflt)"
| "py_get PNone k dflt = Inl AttributeError"
| "py_get (PBool b) k dflt = Inl AttributeError"
| "py_get (PInt i) k dflt = Inl AttributeError"
| "py_get (PStr s) k dflt = Inl AttributeError"
| "py_get (PList xs) k dflt = Inl AttributeError"

text \<open>\<^verbatim>\<open>v.items()\<close>.\<close>

fun py_items :: "pyval \<Rightarrow> exn + pydict" where
  "py_items (PDict d) = Inr d"
| "py_items PNone = Inl AttributeError"
| "py_items (PBool b) = Inl AttributeError"
| "py_items (PInt i) = Inl AttributeError"
| "py_items (PStr s) = Inl AttributeError"
| "py_items (PList xs) = Inl AttributeError"

text \<open>\<^verbatim>\<open>d[k] = v\<close>: an existing key keeps its position, a new key goes last.\<close>

fun dict_set :: "(string \<times> 'v) list \<Rightarrow> string \<Rightarrow> 'v \<Rightarrow> (string \<times> 'v) list" where
  "dict_set [] k v = [(k, v)]"
| "dict_set ((k', v') # d) k v =
     (if k' = k then (k', v) # d else (k', v') # dict_set d k v)"

text \<open>\<^verbatim>\<open>v.replace(old, new)\<close> on any value: only a string has the method.\<close>

fun py_replace :: "pyval \<Rightarrow> string \<Rightarrow> string \<Rightarrow> exn + string" where
  "py_replace (PStr s) old new = Inr (str_replace old new s)"
| "py_replace PNone old new = Inl AttributeError"
| "py_replace (PBool b) old new = Inl AttributeError"
| "py_replace (PInt i) old new = Inl AttributeError"
| "py_replace (PList xs) old new = Inl AttributeError"
| "py_replace (PDict d) old new = Inl AttributeError"

text \<open>\<^verbatim>\<open>template.replace(old, v)\<close>: the replacement must be a string.\<close>

fun replace_with :: "string \<Rightarrow> string \<Rightarrow> pyval \<Rightarrow> exn + string" where
  "replace_with template old (PStr s) = Inr (str_replace old s template)"
| "replace_with template old PNone = Inl TypeError"
| "replace_with template old (PBool b) = Inl TypeError"
| "replace_with template old (PInt i) = Inl TypeError"
| "replace_with template old (PList xs) = Inl TypeError"
| "replace_with template old (PDict d) = Inl TypeError"

section \<open>The formatter\<close>

text \<open>
  \<^verbatim>\<open>format_extinf(channel_id, tvg_id, tvg_chno, tvg_name, tvg_logo, group_title,
  display_name)\<close>. The channel id is a dict key, hence a string; every other argument is
  whatever the catalog holds. The three \<^verbatim>\<open>.replace\<close> calls run in source order and
  raise \<^verbatim>\<open>AttributeError\<close> on a value that is not a string.
\<close>

definition chno_str :: "pyval \<Rightarrow> string" where
  "chno_str tvg_chno =
     (if tvg_chno \<noteq> PNone \<and> str_isdigit (py_str tvg_chno) then py_str tvg_chno else [])"

definition extinf_line ::
  "string \<Rightarrow> string \<Rightarrow> string \<Rightarrow> string \<Rightarrow> string \<Rightarrow> string \<Rightarrow> string \<Rightarrow> string" where
  "extinf_line channel_id tvg_id chno tvg_name tvg_logo group_title display_name =
     ''#EXTINF:-1 '' @
     ''channel-id='' @ [DQ] @ channel_id @ [DQ] @ '' '' @
     ''tvg-id='' @ [DQ] @ tvg_id @ [DQ] @ '' '' @
     ''tvg-chno='' @ [DQ] @ chno @ [DQ] @ '' '' @
     ''tvg-name='' @ [DQ] @ tvg_name @ [DQ] @ '' '' @
     ''tvg-logo='' @ [DQ] @ tvg_logo @ [DQ] @ '' '' @
     ''group-title='' @ [DQ] @ group_title @ [DQ] @ '','' @
     display_name @ [NL]"

definition format_extinf ::
  "string \<Rightarrow> pyval \<Rightarrow> pyval \<Rightarrow> pyval \<Rightarrow> pyval \<Rightarrow> pyval \<Rightarrow> pyval \<Rightarrow> exn + string" where
  "format_extinf channel_id tvg_id tvg_chno tvg_name tvg_logo group_title display_name =
     (case py_replace tvg_name [DQ] [SQ] of
        Inl e \<Rightarrow> Inl e
      | Inr sanitized_tvg_name \<Rightarrow>
     (case py_replace group_title [DQ] [SQ] of
        Inl e \<Rightarrow> Inl e
      | Inr sanitized_group_title \<Rightarrow>
     (case py_replace display_name '','' [] of
        Inl e \<Rightarrow> Inl e
      | Inr sanitized_display_name \<Rightarrow>
          Inr (extinf_line channel_id (py_str tvg_id) (chno_str tvg_chno) sanitized_tvg_name
                 (py_str tvg_logo) sanitized_group_title sanitized_display_name))))"

section \<open>Numbers from catalog values\<close>

text \<open>
  \<^verbatim>\<open>int(v)\<close>. On a string: optional surrounding whitespace, an optional sign, then
  decimal digits, where single underscores may stand between digits; anything else is a
  \<^verbatim>\<open>ValueError\<close>. On \<^verbatim>\<open>None\<close>, a list or a dict it is a \<^verbatim>\<open>TypeError\<close>. (The limit
  of 4300 digits of recent interpreters is not modelled.)
\<close>

definition is_space :: "char \<Rightarrow> bool" where
  "is_space c = (c \<in> set [CHR 0x09, CHR 0x0A, CHR 0x0B, CHR 0x0C, CHR 0x0D, CHR 0x20])"

definition digit_val :: "char \<Rightarrow> nat" where
  "digit_val c = length (takeWhile (\<lambda>d. d \<noteq> c) ''0123456789'')"

fun scan_digits :: "nat \<Rightarrow> string \<Rightarrow> nat option" where
  "scan_digits acc [] = Some acc"
| "scan_digits acc (c # cs) =
     (if is_digit c then scan_digits (10 * acc + digit_val c) cs
      else if c = CHR ''_'' then
        (case cs of
           [] \<Rightarrow> None
         | d # ds \<Rightarrow> if is_digit d then scan_digits (10 * acc + digit_val d) ds else None)
      else if list_all is_space (c # cs) then Some acc
      else None)"

definition int_of_str :: "string \<Rightarrow> exn + int" where
  "int_of_str s =
     (let t = dropWhile is_space s;
          neg = (t \<noteq> [] \<and> hd t = CHR ''-'');
          u = (if t \<noteq> [] \<and> (hd t = CHR ''+'' \<or> hd t = CHR ''-'') then tl t else t)
      in case u of
           [] \<Rightarrow> Inl ValueError
         | d # ds \<Rightarrow>
             if is_digit d then
               (case scan_digits (digit_val d) ds of
                  None \<Rightarrow> Inl ValueError
                | Some n \<Rightarrow> Inr (if neg then - int n else int n))
             else Inl ValueError)"

fun py_int :: "pyval \<Rightarrow> exn + int" where
  "py_int (PInt i) = Inr i"
| "py_int (PBool b) = Inr (if b then 1 else 0)"
| "py_int (PStr s) = int_of_str s"
| "py_int PNone = Inl TypeError"
| "py_int (PList xs) = Inl TypeError"
| "py_int (PDict d) = Inl TypeError"

text \<open>\<^verbatim>\<open>v.lower()\<close> on any value: only a string has the method.\<close>

fun py_lower :: "pyval \<Rightarrow> exn + string" where
  "py_lower (PStr s) = Inr (str_lower s)"
| "py_lower PNone = Inl AttributeError"
| "py_lower (PBool b) = Inl AttributeError"
| "py_lower (PInt i) = Inl AttributeError"
| "py_lower (PList xs) = Inl AttributeError"
| "py_lower (PDict d) = Inl AttributeError"

section \<open>Exceptions and sorting\<close>

text \<open>Sequencing of two steps either of which may raise.\<close>

definition ebind :: "exn + 'a \<Rightarrow> ('a \<Rightarrow> exn + 'b) \<Rightarrow> exn + 'b" where
  "ebind m f = (case m of Inl e \<Rightarrow> Inl e | Inr x \<Rightarrow> f x)"

text \<open>
  \<^verbatim>\<open>sorted(xs, key=f)\<close>: the key of every element is computed once, in list order (the
  first exception ends the call); the elements are then put in ascending key order by
  a stable sort.
\<close>

fun key_all :: "('a \<Rightarrow> exn + 'k) \<Rightarrow> 'a list \<Rightarrow> exn + ('k \<times> 'a) list" where
  "key_all f [] = Inr []"
| "key_all f (x # xs) =
     ebind (f x) (\<lambda>k. ebind (key_all f xs) (\<lambda>kxs. Inr ((k, x) # kxs)))"

definition py_sorted :: "('a \<Rightarrow> exn + 'k::linorder) \<Rightarrow> 'a list \<Rightarrow> exn + 'a list" where
  "py_sorted f xs = ebind (key_all f xs) (\<lambda>kxs. Inr (map snd (sort_key fst kxs)))"

section \<open>The world outside the program\<close>

datatype level = INFO | WARNING | ERROR

type_synonym bytes = "char list"

record response =
  status_code :: nat
  content :: bytes

text \<open>
  What the libraries and the operating system answer is an input of the model:
  \<^verbatim>\<open>requests.get\<close> (an exception or a response), reading a gzip stream, decoding
  UTF-8, \<^verbatim>\<open>json.loads\<close>, and whether creating the output directory and opening a file
  for writing succeed.
\<close>

record env =
  requests_get :: "string \<Rightarrow> (string \<times> string) list option \<Rightarrow> exn + response"
  gzip_read :: "bytes \<Rightarrow> exn + bytes"
  utf8_decode :: "bytes \<Rightarrow> exn + string"
  json_loads :: "string \<Rightarrow> exn + pyval"
  makedirs_ok :: bool
  open_ok :: "string \<Rightarrow> bool"

text \<open>
  The state the program changes: the output directory, the files written and the log.
  A log message is kept up to the point where the source appends the text of an
  exception.
\<close>

record state =
  dir_exists :: bool
  files :: "string \<rightharpoonup> string"
  log :: "(level \<times> string) list"

definition logging :: "level \<Rightarrow> string \<Rightarrow> state \<Rightarrow> state" where
  "logging lvl msg st = st\<lparr>log := log st @ [(lvl, msg)]\<rparr>"

section \<open>The fetcher\<close>

datatype fetched = Value pyval | Response response

definition OUTPUT_DIR :: string where
  "OUTPUT_DIR = ''playlists''"

text \<open>Lines 28 to 51: the body of the \<^verbatim>\<open>try\<close> after the streaming return.\<close>

definition gunzip_text :: "env \<Rightarrow> bytes \<Rightarrow> state \<Rightarrow> (exn + string) \<times> state" where
  "gunzip_text env body st =
     (let st1 = logging INFO ''Decompressing gzipped content.'' st;
          (content1, tried) =
            (case gzip_read env body of
               Inl e \<Rightarrow> (body, Inl e)
             | Inr raw \<Rightarrow> (raw, utf8_decode env raw))
      in case tried of
           Inr text \<Rightarrow> (Inr text, st1)
         | Inl e \<Rightarrow>
             if e = BadGzipFile then
               (utf8_decode env content1,
                logging WARNING ''Content was not gzipped, trying as plain text.'' st1)
             else (Inl e, logging ERROR ''Error decompressing gzip: '' st1))"

definition read_content :: "env \<Rightarrow> bool \<Rightarrow> bool \<Rightarrow> bytes \<Rightarrow> state \<Rightarrow> (exn + pyval) \<times> state" where
  "read_content env is_json is_gzipped body st =
     (case (if is_gzipped then gunzip_text env body st else (utf8_decode env body, st)) of
        (Inl e, st1) \<Rightarrow> (Inl e, st1)
      | (Inr text, st1) \<Rightarrow>
          if is_json then (json_loads env text, logging INFO ''Parsing JSON data.'' st1)
          else (Inr (PStr text), logging INFO ''Returning raw text content.'' st1))"

text \<open>The three \<^verbatim>\<open>except\<close> clauses of lines 53 to 61: each logs and returns \<^verbatim>\<open>None\<close>.\<close>

definition fetch_failed :: "string \<Rightarrow> exn \<Rightarrow> state \<Rightarrow> fetched \<times> state" where
  "fetch_failed url e st =
     (Value PNone,
      if e = RequestException then logging ERROR (''Error fetching '' @ url @ '': '') st
      else if e = JSONDecodeError then
        logging ERROR (''Error decoding JSON from '' @ url @ '': '') st
      else logging ERROR (''An unexpected error occurred for '' @ url @ '': '') st)"

definition fetch_url ::
  "env \<Rightarrow> string \<Rightarrow> bool \<Rightarrow> bool \<Rightarrow> (string \<times> string) list option \<Rightarrow> bool \<Rightarrow> state
     \<Rightarrow> fetched \<times> state" where
  "fetch_url env url is_json is_gzipped headers stream st =
     (let st0 = logging INFO (''Fetching URL: '' @ url) st
      in case requests_get env url headers of
           Inl e \<Rightarrow> fetch_failed url e st0
         | Inr resp \<Rightarrow>
             if 400 \<le> status_code resp \<and> status_code resp < 600
               then fetch_failed url RequestException st0
             else if stream
               then (Response resp, logging INFO ''Returning streaming response.'' st0)
             else (case read_content env is_json is_gzipped (content resp) st0 of
                     (Inl e, st1) \<Rightarrow> fetch_failed url e st1
                   | (Inr v, st1) \<Rightarrow> (Value v, st1)))"

section \<open>The writer\<close>

definition write_m3u_file :: "env \<Rightarrow> string \<Rightarrow> string \<Rightarrow> state \<Rightarrow> (exn + unit) \<times> state" where
  "write_m3u_file env filename text st =
     (let made = (if dir_exists st then Inr st
                  else if makedirs_ok env
                    then Inr ((logging INFO (''Creating output directory: '' @ OUTPUT_DIR) st)
                                \<lparr>dir_exists := True\<rparr>)
                  else Inl (logging INFO (''Creating output directory: '' @ OUTPUT_DIR) st));
          filepath = OUTPUT_DIR @ ''/'' @ filename
      in case made of
           Inl st1 \<Rightarrow> (Inl OSError, st1)
         | Inr st1 \<Rightarrow>
             if open_ok env filepath then
               (Inr (), logging INFO (''Successfully wrote playlist to '' @ filepath)
                          (st1\<lparr>files := (files st1)(filepath \<mapsto> text)\<rparr>))
             else (Inr (), logging ERROR (''Error writing file '' @ filepath @ '': '') st1))"

section \<open>The playlist generator\<close>

definition STREAM_URL_TEMPLATE :: string where
  "STREAM_URL_TEMPLATE = ''https://jmp2.uk/plu-{id}.m3u8''"

definition EPG_URL_TEMPLATE :: string where
  "EPG_URL_TEMPLATE =
     ''https://github.com/matthuisman/i.mjh.nz/raw/master/PlutoTV/{region}.xml.gz''"

definition region_name_map :: "(string \<times> string) list" where
  "region_name_map =
     [(''ar'', ''Argentina''), (''br'', ''Brazil''), (''ca'', ''Canada''), (''cl'', ''Chile''),
      (''co'', ''Colombia''), (''cr'', ''Costa Rica''), (''de'', ''Germany''),
      (''dk'', ''Denmark''), (''do'', ''Dominican Republic''), (''ec'', ''Ecuador''),
      (''es'', ''Spain''), (''fr'', ''France''), (''gb'', ''United Kingdom''),
      (''gt'', ''Guatemala''), (''it'', ''Italy''), (''mx'', ''Mexico''), (''no'', ''Norway''),
      (''pe'', ''Peru''), (''se'', ''Sweden''), (''us'', ''United States''),
      (''latam'', ''Latin America'')]"

text \<open>\<^verbatim>\<open>region_name_map.get(region_key, region_key.upper())\<close>.\<close>

definition region_full_name :: "string \<Rightarrow> string" where
  "region_full_name region_key =
     (case map_of region_name_map region_key of
        None \<Rightarrow> str_upper region_key
      | Some n \<Rightarrow> n)"

text \<open>
  \<^verbatim>\<open>channels_to_process\<close> is a dict from channel id to a channel dict. The dict display
  \<^verbatim>\<open>{**channel_info, k1: v1, ...}\<close> copies the items of \<^verbatim>\<open>channel_info\<close>, which must be a
  mapping, and then stores the listed keys in order.
\<close>

type_synonym ctp = "(string \<times> pydict) list"

definition dict_display :: "pyval \<Rightarrow> (string \<times> pyval) list \<Rightarrow> exn + pydict" where
  "dict_display channel_info extra =
     (case channel_info of
        PDict ci \<Rightarrow> Inr (fold (\<lambda>(k, v) d. dict_set d k v) extra ci)
      | _ \<Rightarrow> Inl TypeError)"

text \<open>Lines 127 to 135: the channels of one region, in the merged playlist.\<close>

fun add_all_channels :: "string \<Rightarrow> string \<Rightarrow> pydict \<Rightarrow> ctp \<Rightarrow> exn + ctp" where
  "add_all_channels region_key full_name [] channels = Inr channels"
| "add_all_channels region_key full_name ((channel_key, channel_info) # rest) channels =
     (let unique_channel_id = channel_key @ ''-'' @ region_key
      in ebind (dict_display channel_info
                  [(''region_code'', PStr region_key),
                   (''group_title_override'', PStr full_name),
                   (''original_id'', PStr channel_key)])
           (\<lambda>channel. add_all_channels region_key full_name rest
                         (dict_set channels unique_channel_id channel)))"

text \<open>Lines 125 to 135: every region of the catalog.\<close>

fun add_all_regions :: "pydict \<Rightarrow> ctp \<Rightarrow> exn + ctp" where
  "add_all_regions [] channels = Inr channels"
| "add_all_regions ((region_key, region_data) # rest) channels =
     ebind (py_get region_data ''channels'' (PDict [])) (\<lambda>chans.
     ebind (py_items chans) (\<lambda>items.
     ebind (add_all_channels region_key (region_full_name region_key) items channels)
       (add_all_regions rest)))"

text \<open>Lines 141 to 146: the channels of the one requested region.\<close>

fun add_region_channels :: "string \<Rightarrow> pydict \<Rightarrow> ctp \<Rightarrow> exn + ctp" where
  "add_region_channels region [] channels = Inr channels"
| "add_region_channels region ((channel_key, channel_info) # rest) channels =
     ebind (dict_display channel_info
              [(''region_code'', PStr region), (''original_id'', PStr channel_key)])
       (\<lambda>channel. add_region_channels region rest (dict_set channels channel_key channel))"

text \<open>
  Lines 121 to 146. The result \<open>None\<close> is the \<^verbatim>\<open>continue\<close> of line 140: the region
  is not in the catalog (or its record is empty).
\<close>

definition channels_to_process :: "pyval \<Rightarrow> string \<Rightarrow> exn + ctp option" where
  "channels_to_process data region =
     (if str_lower region = ''all'' then
        ebind (py_get data ''regions'' (PDict [])) (\<lambda>regs.
        ebind (py_items regs) (\<lambda>items.
        ebind (add_all_regions items []) (\<lambda>channels. Inr (Some channels))))
      else
        ebind (py_get data ''regions'' (PDict [])) (\<lambda>regs.
        ebind (py_get regs region PNone) (\<lambda>region_data.
          if \<not> truthy region_data then Inr None
          else
            ebind (py_get region_data ''channels'' (PDict [])) (\<lambda>chans.
            ebind (py_items chans) (\<lambda>items.
            ebind (add_region_channels region items []) (\<lambda>channels. Inr (Some channels)))))))"

text \<open>Lines 148 to 156: the two sort keys, and the order the entries are written in.\<close>

definition channel_at :: "ctp \<Rightarrow> string \<Rightarrow> exn + pydict" where
  "channel_at channels k = (case map_of channels k of None \<Rightarrow> Inl KeyError | Some c \<Rightarrow> Inr c)"

definition chno_key :: "ctp \<Rightarrow> string \<Rightarrow> exn + int" where
  "chno_key channels k =
     ebind (channel_at channels k) (\<lambda>c. py_int (dict_get c ''chno'' (PInt 99999)))"

definition name_key :: "ctp \<Rightarrow> string \<Rightarrow> exn + string" where
  "name_key channels k =
     ebind (channel_at channels k) (\<lambda>c. py_lower (dict_get c ''name'' (PStr [])))"

definition try_sort :: "string \<Rightarrow> ctp \<Rightarrow> exn + string list" where
  "try_sort sort_mode channels =
     (if sort_mode = ''chno'' then py_sorted (chno_key channels) (map fst channels)
      else py_sorted (name_key channels) (map fst channels))"

definition sorted_channel_ids :: "string \<Rightarrow> string \<Rightarrow> ctp \<Rightarrow> state \<Rightarrow> string list \<times> state" where
  "sorted_channel_ids sort_mode region channels st =
     (case try_sort sort_mode channels of
        Inr ids \<Rightarrow> (ids, st)
      | Inl e \<Rightarrow>
          (map fst channels,
           logging WARNING
             (''Sorting failed for PlutoTV '' @ region @ '', using default order. Error: '') st))"

text \<open>Lines 160 to 171: the two lines of one channel.\<close>

definition m3u_entry :: "bool \<Rightarrow> ctp \<Rightarrow> string \<Rightarrow> exn + string list" where
  "m3u_entry is_all_region channels channel_id =
     ebind (channel_at channels channel_id) (\<lambda>channel.
       let chno = dict_get channel ''chno'' PNone;
           name = dict_get channel ''name'' (PStr ''Unknown Channel'');
           logo = dict_get channel ''logo'' (PStr []);
           group = (if is_all_region then dict_get channel ''group_title_override'' PNone
                    else dict_get channel ''group'' (PStr ''Uncategorized''));
           original_id = dict_get channel ''original_id''
                           (PStr (takeWhile (\<lambda>c. c \<noteq> CHR ''-'') channel_id));
           tvg_id = original_id
       in ebind (format_extinf channel_id tvg_id chno name logo group name) (\<lambda>extinf.
          ebind (replace_with STREAM_URL_TEMPLATE ''{id}'' original_id) (\<lambda>stream_url.
            Inr [extinf, stream_url @ [NL]])))"

fun m3u_entries :: "bool \<Rightarrow> ctp \<Rightarrow> string list \<Rightarrow> exn + string list" where
  "m3u_entries is_all_region channels [] = Inr []"
| "m3u_entries is_all_region channels (channel_id # rest) =
     ebind (m3u_entry is_all_region channels channel_id) (\<lambda>ls.
     ebind (m3u_entries is_all_region channels rest) (\<lambda>more. Inr (ls @ more)))"

definition playlist_header :: "string \<Rightarrow> string" where
  "playlist_header region =
     ''#EXTM3U url-tvg='' @ [DQ] @ str_replace ''{region}'' region EPG_URL_TEMPLATE @ [DQ, NL]"

text \<open>Lines 118 to 173: one turn of the loop over the requested regions.\<close>

definition process_region ::
  "env \<Rightarrow> pyval \<Rightarrow> string \<Rightarrow> string \<Rightarrow> state \<Rightarrow> (exn + unit) \<times> state" where
  "process_region env data sort_mode region st =
     (let st1 = logging INFO
                  (''--- Generating lgchannels playlist for region: '' @ region @ '' ---'') st;
          is_all_region = (str_lower region = ''all'')
      in case channels_to_process data region of
           Inl e \<Rightarrow> (Inl e, st1)
         | Inr None \<Rightarrow>
             (Inr (), logging WARNING
                        (''Region '' @ [SQ] @ region @ [SQ] @
                         '' not found in PlutoTV data. Skipping.'') st1)
         | Inr (Some channels) \<Rightarrow>
             (case sorted_channel_ids sort_mode region channels st1 of
                (ids, st2) \<Rightarrow>
                  (case m3u_entries is_all_region channels ids of
                     Inl e \<Rightarrow> (Inl e, st2)
                   | Inr ls \<Rightarrow>
                       write_m3u_file env (''lgchannels_'' @ region @ ''.m3u'')
                         (concat (playlist_header region # ls)) st2)))"

fun process_regions ::
  "env \<Rightarrow> pyval \<Rightarrow> string \<Rightarrow> string list \<Rightarrow> state \<Rightarrow> (exn + unit) \<times> state" where
  "process_regions env data sort_mode [] st = (Inr (), st)"
| "process_regions env data sort_mode (region # rest) st =
     (case process_region env data sort_mode region st of
        (Inl e, st1) \<Rightarrow> (Inl e, st1)
      | (Inr u, st1) \<Rightarrow> process_regions env data sort_mode rest st1)"

text \<open>
  Lines 105 to 173: everything after the fetch. A streaming response cannot arrive
  here (the call passes no \<^verbatim>\<open>stream\<close>); it is truthy after \<^verbatim>\<open>raise_for_status\<close>
  and has no chunk equal to the string \<^verbatim>\<open>'regions'\<close>, so it would take the early
  return as well.
\<close>

definition generate_from :: "env \<Rightarrow> fetched \<Rightarrow> string list \<Rightarrow> string \<Rightarrow> state \<Rightarrow> (exn + unit) \<times> state" where
  "generate_from env fetched regions sort_mode st =
     (case fetched of
        Response r \<Rightarrow> (Inr (), logging ERROR ''Failed to fetch or parse PlutoTV data.'' st)
      | Value data \<Rightarrow>
          if \<not> truthy data
            then (Inr (), logging ERROR ''Failed to fetch or parse PlutoTV data.'' st)
          else (case py_contains ''regions'' data of
                  Inl e \<Rightarrow> (Inl e, st)
                | Inr found \<Rightarrow>
                    if \<not> found
                      then (Inr (), logging ERROR ''Failed to fetch or parse PlutoTV data.'' st)
                    else process_regions env data sort_mode regions st))"

text \<open>
  Line 104 reads the name \<^verbatim>\<open>lgchannels_URL\<close>. The function never assigns that name, so
  it is looked up among the names of the module; line 100 binds the local name
  \<^verbatim>\<open>LGCHANNELS_URL\<close>, which is a different name. The module binds the names below
  (three constants, six imports, four functions); the builtins have no such name either.
\<close>

definition module_constants :: "(string \<times> pyval) list" where
  "module_constants =
     [(''OUTPUT_DIR'', PStr OUTPUT_DIR),
      (''USER_AGENT'', PStr (''Mozilla/5.0 (X11; Linux x86_64) AppleWebKit/537.36 '' @
                             ''(KHTML, like Gecko) Chrome/123.0.0.0 Safari/537.36'')),
      (''REQUEST_TIMEOUT'', PInt 30)]"

definition module_objects :: "string list" where
  "module_objects =
     [''requests'', ''gzip'', ''json'', ''os'', ''logging'', ''BytesIO'',
      ''fetch_url'', ''write_m3u_file'', ''format_extinf'', ''generate_lgchannels_m3u'']"

datatype binding = Constant pyval | Object

definition load_global :: "string \<Rightarrow> exn + binding" where
  "load_global name =
     (case map_of module_constants name of
        Some v \<Rightarrow> Inr (Constant v)
      | None \<Rightarrow> if name \<in> set module_objects then Inr Object else Inl NameError)"

text \<open>
  \<^verbatim>\<open>generate_lgchannels_m3u(regions, sort)\<close>. The argument of \<^verbatim>\<open>fetch_url\<close> is
  evaluated before the call. (\<^verbatim>\<open>requests\<close> and the f-string of line 19 both take the
  text of whatever value the name is bound to.)
\<close>

definition default_regions :: "string list" where
  "default_regions = [''us'', ''ca'', ''gb'', ''au'', ''all'']"

definition binding_str :: "binding \<Rightarrow> string" where
  "binding_str b = (case b of Constant v \<Rightarrow> py_str v | Object \<Rightarrow> ''<object>'')"

definition generate_lgchannels_m3u ::
  "env \<Rightarrow> string list \<Rightarrow> string \<Rightarrow> state \<Rightarrow> (exn + unit) \<times> state" where
  "generate_lgchannels_m3u env regions sort_mode st =
     (case load_global ''lgchannels_URL'' of
        Inl e \<Rightarrow> (Inl e, st)
      | Inr b \<Rightarrow>
          (case fetch_url env (binding_str b) True True None False st of
             (data, st1) \<Rightarrow> generate_from env data regions sort_mode st1))"

section \<open>The specification's words and example inputs\<close>

text \<open>
  A world in which the network is down, and the state before the first run: no output
  directory, no file, an empty log.
\<close>

definition offline_env :: env where
  "offline_env =
     \<lparr>requests_get = (\<lambda>url headers. Inl RequestException),
      gzip_read = (\<lambda>b. Inl BadGzipFile),
      utf8_decode = (\<lambda>b. Inr b),
      json_loads = (\<lambda>s. Inl JSONDecodeError),
      makedirs_ok = True,
      open_ok = (\<lambda>p. True)\<rparr>"

definition empty_state :: state where
  "empty_state = \<lparr>dir_exists = False, files = Map.empty, log = []\<rparr>"

text \<open>
  The key of the name sort in the words of the specification: the display name in lower
  case, the empty string for a record without a name.
\<close>

definition lower_name :: "ctp \<Rightarrow> string \<Rightarrow> string" where
  "lower_name channels k =
     (case map_of channels k of
        None \<Rightarrow> []
      | Some c \<Rightarrow> (case map_of c ''name'' of Some (PStr s) \<Rightarrow> str_lower s | _ \<Rightarrow> []))"





definition nameless_channels :: ctp where
  "nameless_channels =
     [(''z1'', [(''name'', PStr ''Zebra''), (''region_code'', PStr ''us''),
                (''original_id'', PStr ''z1'')]),
      (''n0'', [(''logo'', PStr ''http://l/n0.png''), (''region_code'', PStr ''us''),
                (''original_id'', PStr ''n0'')])]"

text \<open>
  Library answers for the examples. \<open>gzip_read_start\<close> is what reading a gzip stream
  answers on a body that ends before its ten-byte header does: nothing for the empty
  body, \<^verbatim>\<open>BadGzipFile\<close> when the first two bytes are not the magic number 1f 8b, and
  \<^verbatim>\<open>EOFError\<close> otherwise (the examples have no longer body that starts with the magic
  number). \<open>ascii_decode\<close> is UTF-8 decoding on bodies without multi-byte characters,
  and \<open>one_json_loads\<close> parses the one document the examples fetch.
\<close>

definition gzip_read_start :: "bytes \<Rightarrow> exn + bytes" where
  "gzip_read_start b =
     (if b = [] then Inr []
      else if take 2 b \<noteq> [CHR 0x1F, CHR 0x8B] then Inl BadGzipFile
      else Inl EOFError)"

definition ascii_decode :: "bytes \<Rightarrow> exn + string" where
  "ascii_decode b =
     (if list_all (\<lambda>c. (of_char c :: nat) < 128) b then Inr b else Inl UnicodeDecodeError)"

definition regions_json :: string where
  "regions_json = ''{'' @ [DQ] @ ''regions'' @ [DQ] @ '': {}}''"

definition one_json_loads :: "string \<Rightarrow> exn + pyval" where
  "one_json_loads s =
     (if s = regions_json then Inr (PDict [(''regions'', PDict [])]) else Inl JSONDecodeError)"

definition serving_env :: "bytes \<Rightarrow> env" where
  "serving_env body =
     \<lparr>requests_get = (\<lambda>url headers. Inr \<lparr>status_code = 200, content = body\<rparr>),
      gzip_read = gzip_read_start,
      utf8_decode = ascii_decode,
      json_loads = one_json_loads,
      makedirs_ok = True,
      open_ok = (\<lambda>p. True)\<rparr>"
















section \<open>Basic facts\<close>

lemma ebind_Inl [simp]: "ebind (Inl e) f = Inl e"
  by (simp add: ebind_def)

lemma ebind_Inr [simp]: "ebind (Inr x) f = f x"
  by (simp add: ebind_def)

lemma str_replace_char_char:
  "str_replace [a] [b] s = map (\<lambda>c. if c = a then b else c) s"
  by (induction s) auto

lemma str_replace_char_nil:
  "str_replace [a] [] s = filter (\<lambda>c. c \<noteq> a) s"
  by (induction s) auto

lemma is_digit_digit_char: "n < 10 \<Longrightarrow> is_digit (digit_char n)"
proof -
  assume "n < 10"
  then have "n \<in> {0, 1, 2, 3, 4, 5, 6, 7, 8, 9}" by auto
  then show ?thesis by (auto simp: is_digit_def digit_char_def)
qed

lemma str_nat_digits: "list_all is_digit (str_nat n) \<and> str_nat n \<noteq> []"
proof (induction n rule: str_nat.induct)
  case (1 n)
  show ?case
  proof (cases "n < 10")
    case True
    then show ?thesis by (simp add: str_nat.simps [of n] is_digit_digit_char)
  next
    case False
    with 1 show ?thesis by (simp add: str_nat.simps [of n] is_digit_digit_char)
  qed
qed

lemma str_isdigit_str_int: "str_isdigit (str_int i) \<longleftrightarrow> 0 \<le> i"
  using str_nat_digits [of "nat i"]
  by (auto simp: str_int_def str_isdigit_def is_digit_def)

lemma not_isdigit_repr_str: "\<not> str_isdigit (repr_str s)"
  by (auto simp: repr_str_def str_isdigit_def is_digit_def Let_def)

lemma chno_str_cases:
  "chno_str v =
     (case v of
        PStr s \<Rightarrow> if str_isdigit s then s else []
      | PInt i \<Rightarrow> if 0 \<le> i then str_int i else []
      | _ \<Rightarrow> [])"
proof (cases v)
  case (PInt i)
  then show ?thesis by (simp add: chno_str_def py_str_def str_isdigit_str_int)
next
  case (PStr s)
  then show ?thesis by (simp add: chno_str_def py_str_def)
qed (simp_all add: chno_str_def py_str_def str_isdigit_def is_digit_def not_isdigit_repr_str)

lemma format_extinf_strings:
  "format_extinf channel_id tvg_id tvg_chno (PStr name) tvg_logo (PStr grp) (PStr display) =
     Inr (extinf_line channel_id (py_str tvg_id) (chno_str tvg_chno)
            (map (\<lambda>c. if c = DQ then SQ else c) name) (py_str tvg_logo)
            (map (\<lambda>c. if c = DQ then SQ else c) grp) (filter (\<lambda>c. c \<noteq> CHR '','') display))"
  by (simp add: format_extinf_def str_replace_char_char str_replace_char_nil)

lemma stream_url: "str_replace ''{id}'' x STREAM_URL_TEMPLATE = ''https://jmp2.uk/plu-'' @ x @ ''.m3u8''"
  by (simp add: STREAM_URL_TEMPLATE_def)


lemma key_all_ok:
  "\<forall>x\<in>set xs. \<exists>k. f x = Inr k \<Longrightarrow> key_all f xs = Inr (map (\<lambda>x. (projr (f x), x)) xs)"
  by (induction xs) auto

lemma key_all_fail:
  "\<exists>x\<in>set xs. \<exists>e. f x = Inl e \<Longrightarrow> \<exists>e. key_all f xs = Inl e"
proof (induction xs)
  case Nil
  then show ?case by simp
next
  case (Cons x xs)
  show ?case
  proof (cases "f x")
    case (Inl e)
    then show ?thesis by simp
  next
    case (Inr k)
    with Cons.prems have "\<exists>y\<in>set xs. \<exists>e. f y = Inl e" by auto
    then obtain e where "key_all f xs = Inl e" using Cons.IH by blast
    with Inr show ?thesis by simp
  qed
qed

lemma insort_decorated:
  "insort_key fst (g x, x) (map (\<lambda>y. (g y, y)) ys) = map (\<lambda>y. (g y, y)) (insort_key g x ys)"
  by (induction ys) auto

lemma sort_decorated:
  "sort_key fst (map (\<lambda>y. (g y, y)) xs) = map (\<lambda>y. (g y, y)) (sort_key g xs)"
  by (induction xs) (auto simp: insort_decorated)

lemma py_sorted_ok:
  assumes "\<forall>x\<in>set xs. \<exists>k. f x = Inr k"
  shows "py_sorted f xs = Inr (sort_key (\<lambda>x. projr (f x)) xs)"
  using key_all_ok [OF assms]
  by (simp add: py_sorted_def sort_decorated [of "\<lambda>x. projr (f x)"] comp_def)

lemma py_sorted_fail:
  assumes "\<not> (\<forall>x\<in>set xs. \<exists>k. f x = Inr k)"
  shows "\<exists>e. py_sorted f xs = Inl e"
proof -
  from assms obtain x where x: "x \<in> set xs" "\<forall>k. f x \<noteq> Inr k" by blast
  then obtain e where "f x = Inl e" by (cases "f x") auto
  with x have "\<exists>x\<in>set xs. \<exists>e. f x = Inl e" by blast
  from key_all_fail [OF this] show ?thesis by (auto simp: py_sorted_def)
qed


lemma sorted_ids_name:
  assumes "sort_mode \<noteq> ''chno''"
  shows "fst (sorted_channel_ids sort_mode region channels st) =
     (if \<forall>k\<in>set (map fst channels). \<exists>s. name_key channels k = Inr s
      then sort_key (\<lambda>k. projr (name_key channels k)) (map fst channels)
      else map fst channels)"
proof (cases "\<forall>k\<in>set (map fst channels). \<exists>i. name_key channels k = Inr i")
  case True
  from py_sorted_ok [OF True] True assms show ?thesis
    by (simp add: sorted_channel_ids_def try_sort_def)
next
  case False
  from py_sorted_fail [OF False] obtain e where
    "py_sorted (name_key channels) (map fst channels) = Inl e" by blast
  with False assms show ?thesis
    by (auto simp add: sorted_channel_ids_def try_sort_def)
qed

lemma insort_key_agree:
  "f x = g x \<Longrightarrow> \<forall>y\<in>set ys. f y = g y \<Longrightarrow> insort_key f x ys = insort_key g x ys"
  by (induction ys) auto

lemma sort_key_agree:
  "\<forall>x\<in>set xs. f x = g x \<Longrightarrow> sort_key f xs = sort_key g xs"
proof (induction xs)
  case Nil
  then show ?case by simp
next
  case (Cons x xs)
  then have IH: "sort_key f xs = sort_key g xs" by simp
  have "insort_key f x (sort_key g xs) = insort_key g x (sort_key g xs)"
    using Cons.prems by (intro insort_key_agree) simp_all
  with IH show ?case by simp
qed

lemma name_key_lower_name:
  assumes "\<forall>(k, c)\<in>set channels. \<forall>v. map_of c ''name'' = Some v \<longrightarrow> (\<exists>s. v = PStr s)"
    and "k \<in> set (map fst channels)"
  shows "name_key channels k = Inr (lower_name channels k)"
proof -
  from assms(2) obtain c where c: "map_of channels k = Some c"
    by (metis list.set_map map_of_eq_None_iff not_Some_eq)
  then have "(k, c) \<in> set channels" by (rule map_of_SomeD)
  with assms(1) have str: "\<forall>v. map_of c ''name'' = Some v \<longrightarrow> (\<exists>s. v = PStr s)" by blast
  show ?thesis
  proof (cases "map_of c ''name''")
    case None
    with c show ?thesis
      by (simp add: name_key_def channel_at_def dict_get_def lower_name_def str_lower_def)
  next
    case (Some v)
    with str obtain s where "v = PStr s" by blast
    with Some c show ?thesis
      by (simp add: name_key_def channel_at_def dict_get_def lower_name_def)
  qed
qed

lemma name_sort_result:
  assumes "sort_mode \<noteq> ''chno''"
    and "\<forall>(k, c)\<in>set channels. \<forall>v. map_of c ''name'' = Some v \<longrightarrow> (\<exists>s. v = PStr s)"
  shows "sorted_channel_ids sort_mode region channels st =
           (sort_key (lower_name channels) (map fst channels), st)"
proof -
  have keys: "\<forall>k\<in>set (map fst channels). name_key channels k = Inr (lower_name channels k)"
    using name_key_lower_name [OF assms(2)] by blast
  then have "\<forall>k\<in>set (map fst channels). \<exists>s. name_key channels k = Inr s" by blast
  from py_sorted_ok [OF this]
  have "py_sorted (name_key channels) (map fst channels) =
          Inr (sort_key (\<lambda>k. projr (name_key channels k)) (map fst channels))" .
  also have "sort_key (\<lambda>k. projr (name_key channels k)) (map fst channels) =
          sort_key (lower_name channels) (map fst channels)"
    using keys by (intro sort_key_agree) simp
  finally show ?thesis using assms(1)
    by (simp add: sorted_channel_ids_def try_sort_def)
qed

lemma m3u_entry_strings:
  assumes "map_of channels k = Some c"
    and "dict_get c ''name'' (PStr ''Unknown Channel'') = PStr n"
    and "(if is_all then dict_get c ''group_title_override'' PNone
          else dict_get c ''group'' (PStr ''Uncategorized'')) = PStr g"
    and "dict_get c ''original_id'' (PStr (takeWhile (\<lambda>c. c \<noteq> CHR ''-'') k)) = PStr oid"
  shows "m3u_entry is_all channels k =
     Inr [extinf_line k oid (chno_str (dict_get c ''chno'' PNone))
            (map (\<lambda>c. if c = DQ then SQ else c) n) (py_str (dict_get c ''logo'' (PStr [])))
            (map (\<lambda>c. if c = DQ then SQ else c) g) (filter (\<lambda>c. c \<noteq> CHR '','') n),
          ''https://jmp2.uk/plu-'' @ oid @ ''.m3u8'' @ [NL]]"
  using assms
  by (simp add: m3u_entry_def channel_at_def Let_def format_extinf_strings stream_url
      py_str_def)

section \<open>The generator as a whole\<close>

text \<open>
  After the fetch, a \<^verbatim>\<open>None\<close> result is logged and ends the run with no file written
  and no exception; a JSON document that is a number is not caught by the test of
  line 105 and ends the run with a \<^verbatim>\<open>TypeError\<close>.
\<close>

lemma null_fetch_writes_nothing:
  "generate_from env (Value PNone) regions sort_mode st =
     (Inr (), logging ERROR ''Failed to fetch or parse PlutoTV data.'' st)"
  by (simp add: generate_from_def)

lemma number_document_raises:
  "generate_from env (Value (PInt 5)) regions sort_mode st = (Inl TypeError, st)"
  by (simp add: generate_from_def)

text \<open>
  C1. The claim: no run of \<^verbatim>\<open>generate_lgchannels_m3u\<close> lets an exception reach the
  caller. The code: every run, whatever the regions, the sort mode, the network and the
  file system, ends at line 104 with a \<^verbatim>\<open>NameError\<close> for \<^verbatim>\<open>lgchannels_URL\<close>, before
  anything is fetched, logged or written.
\<close>

theorem generate_raises_NameError:
  "generate_lgchannels_m3u env regions sort_mode st = (Inl NameError, st)"
  by (simp add: generate_lgchannels_m3u_def load_global_def module_constants_def
      module_objects_def)

theorem generate_raises_NameError_witness:
  "generate_lgchannels_m3u offline_env default_regions ''name'' empty_state
     = (Inl NameError, empty_state)"
  using generate_raises_NameError [of offline_env default_regions "''name''" empty_state]
  by simp

section \<open>Properties of the formatter\<close>

text \<open>
  C3, as amended. For string arguments, the \<^verbatim>\<open>tvg-name\<close> attribute is the name
  argument with every double quote turned into a single quote, the \<^verbatim>\<open>group-title\<close>
  attribute is the group label with every double quote turned into a single quote, and
  the text after the last attribute is the display-name argument with every comma
  removed. Nothing else is changed: a double quote of the display-name argument stays
  in the trailing position, a comma of the name argument stays in the attribute.
\<close>

theorem format_extinf_sanitizes:
  "format_extinf channel_id tvg_id tvg_chno (PStr name) tvg_logo (PStr grp) (PStr display) =
     Inr (''#EXTINF:-1 channel-id='' @ [DQ] @ channel_id @ [DQ] @
          '' tvg-id='' @ [DQ] @ py_str tvg_id @ [DQ] @
          '' tvg-chno='' @ [DQ] @ chno_str tvg_chno @ [DQ] @
          '' tvg-name='' @ [DQ] @ map (\<lambda>c. if c = DQ then SQ else c) name @ [DQ] @
          '' tvg-logo='' @ [DQ] @ py_str tvg_logo @ [DQ] @
          '' group-title='' @ [DQ] @ map (\<lambda>c. if c = DQ then SQ else c) grp @ [DQ] @
          '','' @ filter (\<lambda>c. c \<noteq> CHR '','') display @ [NL])"
  by (simp add: format_extinf_strings extinf_line_def)

theorem format_extinf_sanitizes_witness:
  "format_extinf ''id1'' (PStr ''id1'') (PInt 7) (PStr [CHR ''a'', DQ, CHR '','', CHR ''b''])
       (PStr ''http://l/x.png'') (PStr [DQ, CHR ''g''])
       (PStr [CHR ''a'', DQ, CHR '','', CHR ''b'']) =
     Inr (''#EXTINF:-1 channel-id='' @ [DQ] @ ''id1'' @ [DQ] @
          '' tvg-id='' @ [DQ] @ ''id1'' @ [DQ] @
          '' tvg-chno='' @ [DQ] @ ''7'' @ [DQ] @
          '' tvg-name='' @ [DQ] @ [CHR ''a'', SQ, CHR '','', CHR ''b''] @ [DQ] @
          '' tvg-logo='' @ [DQ] @ ''http://l/x.png'' @ [DQ] @
          '' group-title='' @ [DQ] @ [SQ, CHR ''g''] @ [DQ] @
          '','' @ [CHR ''a'', DQ, CHR ''b''] @ [NL])"
  using format_extinf_sanitizes [of "''id1''" "PStr ''id1''" "PInt 7"
      "[CHR ''a'', DQ, CHR '','', CHR ''b'']" "PStr ''http://l/x.png''" "[DQ, CHR ''g'']"
      "[CHR ''a'', DQ, CHR '','', CHR ''b'']"]
  by (simp add: py_str_def chno_str_cases str_int_def str_nat.simps digit_char_def)

text \<open>
  C3 as stated fails: the display name \<^verbatim>\<open>A"B\<close> is written after the last attribute with
  its double quote, not as \<^verbatim>\<open>A'B\<close>.
\<close>

theorem display_name_keeps_double_quote:
  "format_extinf ''id1'' (PStr ''id1'') PNone (PStr ''n'') (PStr []) (PStr ''g'')
       (PStr [CHR ''A'', DQ, CHR ''B''])
     = Inr (extinf_line ''id1'' ''id1'' [] ''n'' [] ''g'' [CHR ''A'', DQ, CHR ''B''])
   \<and> format_extinf ''id1'' (PStr ''id1'') PNone (PStr ''n'') (PStr []) (PStr ''g'')
       (PStr [CHR ''A'', DQ, CHR ''B''])
     \<noteq> Inr (extinf_line ''id1'' ''id1'' [] ''n'' [] ''g'' [CHR ''A'', SQ, CHR ''B''])"
  by (simp add: format_extinf_def extinf_line_def py_str_def chno_str_def)



section \<open>The order of the entries\<close>






text \<open>
  C10. A record without a name has the empty sort key, so under the name sort only
  entries with an empty key come before it; its two lines carry \<^verbatim>\<open>Unknown Channel\<close>
  both as the \<^verbatim>\<open>tvg-name\<close> attribute and as the trailing display name.
\<close>

theorem nameless_channel:
  assumes "sort_mode \<noteq> ''chno''"
    and "\<forall>(k, c)\<in>set channels. \<forall>v. map_of c ''name'' = Some v \<longrightarrow> (\<exists>s. v = PStr s)"
    and "map_of channels k = Some c"
    and "map_of c ''name'' = None"
  shows "name_key channels k = Inr []
     \<and> (\<forall>i j. i < j \<and> j < length (fst (sorted_channel_ids sort_mode region channels st))
            \<and> fst (sorted_channel_ids sort_mode region channels st) ! j = k
          \<longrightarrow> name_key channels (fst (sorted_channel_ids sort_mode region channels st) ! i) = Inr [])
     \<and> (\<forall>g oid.
          (if is_all then dict_get c ''group_title_override'' PNone
           else dict_get c ''group'' (PStr ''Uncategorized'')) = PStr g
          \<and> dict_get c ''original_id'' (PStr (takeWhile (\<lambda>c. c \<noteq> CHR ''-'') k)) = PStr oid
          \<longrightarrow> m3u_entry is_all channels k =
               Inr [extinf_line k oid (chno_str (dict_get c ''chno'' PNone))
                      ''Unknown Channel'' (py_str (dict_get c ''logo'' (PStr [])))
                      (map (\<lambda>c. if c = DQ then SQ else c) g) ''Unknown Channel'',
                    ''https://jmp2.uk/plu-'' @ oid @ ''.m3u8'' @ [NL]])"
proof -
  let ?ids = "fst (sorted_channel_ids sort_mode region channels st)"
  let ?f = "lower_name channels"
  have ids: "?ids = sort_key ?f (map fst channels)"
    by (simp add: name_sort_result [OF assms(1,2)])
  have key: "name_key channels k = Inr []"
    using assms(3,4) by (simp add: name_key_def channel_at_def dict_get_def str_lower_def)
  have fk: "?f k = []"
    using assms(3,4) by (simp add: lower_name_def)
  have first: "name_key channels (?ids ! i) = Inr []"
    if "i < j" "j < length ?ids" "?ids ! j = k" for i j
  proof -
    have "sorted (map ?f ?ids)" by (simp add: ids)
    then have "map ?f ?ids ! i \<le> map ?f ?ids ! j"
      using that by (intro sorted_nth_mono) simp_all
    with that fk have "?f (?ids ! i) = []" by simp
    moreover have "?ids ! i \<in> set (map fst channels)"
      using that by (metis ids less_trans nth_mem set_sort)
    ultimately show ?thesis
      using name_key_lower_name [OF assms(2)] by simp
  qed
  have render: "m3u_entry is_all channels k =
               Inr [extinf_line k oid (chno_str (dict_get c ''chno'' PNone))
                      ''Unknown Channel'' (py_str (dict_get c ''logo'' (PStr [])))
                      (map (\<lambda>c. if c = DQ then SQ else c) g) ''Unknown Channel'',
                    ''https://jmp2.uk/plu-'' @ oid @ ''.m3u8'' @ [NL]]"
    if "(if is_all then dict_get c ''group_title_override'' PNone
           else dict_get c ''group'' (PStr ''Uncategorized'')) = PStr g"
      "dict_get c ''original_id'' (PStr (takeWhile (\<lambda>c. c \<noteq> CHR ''-'') k)) = PStr oid"
    for g oid
  proof -
    have n: "dict_get c ''name'' (PStr ''Unknown Channel'') = PStr ''Unknown Channel''"
      using assms(4) by (simp add: dict_get_def)
    show ?thesis
      using m3u_entry_strings [OF assms(3) n that] by simp
  qed
  from key first render show ?thesis by blast
qed

theorem nameless_channel_witness:
  "name_key nameless_channels ''n0'' = Inr []
   \<and> m3u_entry False nameless_channels ''n0'' =
       Inr [extinf_line ''n0'' ''n0'' [] ''Unknown Channel'' ''http://l/n0.png''
              ''Uncategorized'' ''Unknown Channel'',
            ''https://jmp2.uk/plu-n0.m3u8'' @ [NL]]
   \<and> fst (sorted_channel_ids ''name'' ''us'' nameless_channels empty_state) = [''n0'', ''z1'']"
proof -
  have c: "map_of nameless_channels ''n0'' =
      Some [(''logo'', PStr ''http://l/n0.png''), (''region_code'', PStr ''us''),
            (''original_id'', PStr ''n0'')]"
    by (simp add: nameless_channels_def)
  have names: "\<forall>(k, c)\<in>set nameless_channels.
      \<forall>v. map_of c ''name'' = Some v \<longrightarrow> (\<exists>s. v = PStr s)"
    by (simp add: nameless_channels_def)
  have mode: "''name'' \<noteq> ''chno''" by simp
  note inst = nameless_channel [OF mode names c, of "''us''" empty_state False]
  have "name_key nameless_channels ''n0'' = Inr []"
    using inst by simp
  moreover have "m3u_entry False nameless_channels ''n0'' =
       Inr [extinf_line ''n0'' ''n0'' [] ''Unknown Channel'' ''http://l/n0.png''
              ''Uncategorized'' ''Unknown Channel'',
            ''https://jmp2.uk/plu-n0.m3u8'' @ [NL]]"
    using inst by (simp add: dict_get_def chno_str_def py_str_def)
  moreover have
    "fst (sorted_channel_ids ''name'' ''us'' nameless_channels empty_state) = [''n0'', ''z1'']"
    by (simp only: name_sort_result [OF mode names])
      (simp add: nameless_channels_def lower_name_def str_lower_def lower_char_def)
  ultimately show ?thesis by simp
qed

section \<open>Properties of the fetcher\<close>

text \<open>
  C8, as amended. When the gzip reader raises \<^verbatim>\<open>BadGzipFile\<close> on the body of a
  successful response, the fetch logs a warning and returns what it returns for a body
  that was not announced as gzip: the body decoded as UTF-8 and, for JSON, parsed. When
  the reader fails with any other exception the fetch logs the error, takes no fallback
  and returns \<^verbatim>\<open>None\<close>.
\<close>

theorem gzip_fallback:
  assumes "requests_get env url headers = Inr resp"
    and "\<not> (400 \<le> status_code resp \<and> status_code resp < 600)"
    and "gzip_read env (content resp) = Inl e"
  shows "(e = BadGzipFile \<longrightarrow>
            fst (fetch_url env url is_json True headers False st) =
              (case utf8_decode env (content resp) of
                 Inl x \<Rightarrow> Value PNone
               | Inr text \<Rightarrow>
                   if is_json
                   then (case json_loads env text of Inl x \<Rightarrow> Value PNone | Inr v \<Rightarrow> Value v)
                   else Value (PStr text))
          \<and> fst (fetch_url env url is_json False headers False st) =
              fst (fetch_url env url is_json True headers False st)
          \<and> (WARNING, ''Content was not gzipped, trying as plain text.'')
              \<in> set (log (snd (fetch_url env url is_json True headers False st))))
       \<and> (e \<noteq> BadGzipFile \<longrightarrow>
            fst (fetch_url env url is_json True headers False st) = Value PNone
          \<and> (ERROR, ''Error decompressing gzip: '')
              \<in> set (log (snd (fetch_url env url is_json True headers False st)))
          \<and> (WARNING, ''Content was not gzipped, trying as plain text.'')
              \<notin> set (log (snd (fetch_url env url is_json True headers False st)))
                  - set (log st))"
  using assms
  by (auto simp: fetch_url_def read_content_def gunzip_text_def fetch_failed_def logging_def
      Let_def split: sum.splits prod.splits)

theorem gzip_fallback_witness:
  "fst (fetch_url (serving_env regions_json) ''https://lgchannels.com/#/'' True True None False
         empty_state)
     = Value (PDict [(''regions'', PDict [])])"
proof -
  let ?env = "serving_env regions_json"
  let ?resp = "\<lparr>status_code = 200, content = regions_json\<rparr>"
  have r: "requests_get ?env ''https://lgchannels.com/#/'' None = Inr ?resp"
    by (simp add: serving_env_def)
  have s: "\<not> (400 \<le> status_code ?resp \<and> status_code ?resp < 600)"
    by simp
  have g: "gzip_read ?env (content ?resp) = Inl BadGzipFile"
    by (simp add: serving_env_def gzip_read_start_def regions_json_def)
  have "fst (fetch_url ?env ''https://lgchannels.com/#/'' True True None False empty_state) =
      (case utf8_decode ?env (content ?resp) of
         Inl x \<Rightarrow> Value PNone
       | Inr text \<Rightarrow> (case json_loads ?env text of Inl x \<Rightarrow> Value PNone | Inr v \<Rightarrow> Value v))"
    using gzip_fallback [OF r s g, of True empty_state] by (simp cong: sum.case_cong)
  also have "\<dots> = Value (PDict [(''regions'', PDict [])])"
    by (simp add: serving_env_def ascii_decode_def one_json_loads_def regions_json_def)
  finally show ?thesis .
qed

text \<open>
  C8 as stated fails: a body that is cut off after the gzip magic number makes the reader
  raise \<^verbatim>\<open>EOFError\<close>; the fetch does not try the body as plain text and returns
  \<^verbatim>\<open>None\<close>.
\<close>

theorem truncated_gzip_returns_None:
  "fetch_url (serving_env [CHR 0x1F, CHR 0x8B]) ''https://lgchannels.com/#/'' True True None
       False empty_state
     = (Value PNone,
        empty_state\<lparr>log :=
          [(INFO, ''Fetching URL: https://lgchannels.com/#/''),
           (INFO, ''Decompressing gzipped content.''),
           (ERROR, ''Error decompressing gzip: ''),
           (ERROR, ''An unexpected error occurred for https://lgchannels.com/#/: '')]\<rparr>)"
  by (simp add: fetch_url_def read_content_def gunzip_text_def fetch_failed_def logging_def
      serving_env_def gzip_read_start_def empty_state_def)

section \<open>A region that is not in the catalog\<close>























section \<open>The text of a playlist\<close>



section \<open>The merged playlist\<close>











end
